theory Spec2Isabelle
  imports Main "HOL-Library.AList"
begin

section \<open>DigiMark \<open>static/js/main.js\<close>: file-input validation and banner auto-close\<close>

text \<open>
  The script has one helper, \<open>validateFileInput(input, allowedExtensions)\<close>, and one
  \<open>DOMContentLoaded\<close> handler that registers it on two file inputs and schedules a
  timer per \<open>.alert\<close> element. The embedding below follows the script line by line.

  Strings are \<open>string\<close>; a \<open>char\<close> stands for the code unit of the same number
  (U+0000 to U+00FF). Every place where JavaScript would throw is a branch that returns
  \<open>Inl TypeError\<close>.
\<close>

subsection \<open>Data\<close>

datatype error = TypeError

text \<open>A \<open>File\<close> object: the script reads \<open>file.name\<close> and \<open>file.size\<close> (bytes).\<close>

record file_obj =
  name :: string
  size_bytes :: nat

text \<open>
  The closure registered by the script on a \<open>change\<close> event is
  \<open>function() { validateFileInput(this, [...]); }\<close>; it is determined by its array.
\<close>

datatype listener = ValidateFileInput "string list"

text \<open>
  An \<open>input type="file"\<close> element: \<open>input.files\<close> is its \<open>FileList\<close>, \<open>listeners\<close>
  are the \<open>change\<close> listeners in registration order.
\<close>

record file_input =
  files :: "file_obj list"
  listeners :: "listener list"

text \<open>
  A \<open>.btn-close\<close> element records how often \<open>click()\<close> was called on it; an \<open>.alert\<close>
  element has its first \<open>.btn-close\<close> descendant, if any.
\<close>

record close_button =
  clicks :: nat

record banner =
  btn_close :: "close_button option"

text \<open>
  The timer callback \<open>function() { ... alert.querySelector('.btn-close') ... }\<close> captures
  one element of the \<open>alerts\<close> node list, here its position in that list.
\<close>

datatype callback = AutoClose nat

record timer =
  callback :: callback
  delay :: nat

text \<open>
  The page as the script sees it: the file inputs by \<open>id\<close> in document order, the elements
  matching \<open>.alert\<close> in document order, and the pending timers.
\<close>

record document =
  elements :: "(string \<times> file_input) list"
  alert_elements :: "banner list"
  timers :: "timer list"

subsection \<open>Built-ins used by the script\<close>

text \<open>
  \<open>String.prototype.toLowerCase\<close> on code units below 256: \<open>A\<close>-\<open>Z\<close>, U+00C0-U+00D6 and
  U+00D8-U+00DE move up by 32, everything else stays.
\<close>

definition toLowerCase_char :: "char \<Rightarrow> char" where
  "toLowerCase_char c =
     (let n = (of_char c :: nat)
      in if (65 \<le> n \<and> n \<le> 90) \<or> (192 \<le> n \<and> n \<le> 214) \<or> (216 \<le> n \<and> n \<le> 222)
         then char_of (n + 32) else c)"

definition toLowerCase :: "string \<Rightarrow> string" where
  "toLowerCase s = map toLowerCase_char s"

text \<open>
  \<open>s.split(sep)\<close> for a one-character separator: scan the string, closing the current
  piece at every separator. The result is never empty (\<open>''.split('.')\<close> is \<open>['']\<close>).
\<close>

fun split_acc :: "char \<Rightarrow> string \<Rightarrow> string \<Rightarrow> string list" where
  "split_acc sep cur [] = [cur]"
| "split_acc sep cur (c # cs) =
     (if c = sep then cur # split_acc sep [] cs else split_acc sep (cur @ [c]) cs)"

definition split :: "string \<Rightarrow> char \<Rightarrow> string list" where
  "split s sep = split_acc sep [] s"

text \<open>\<open>Array.prototype.pop\<close>: the last element, \<open>undefined\<close> (here \<open>None\<close>) on an empty array.\<close>

fun pop :: "'a list \<Rightarrow> 'a option" where
  "pop [] = None"
| "pop (x # xs) = Some (last (x # xs))"

text \<open>\<open>Array.prototype.includes\<close> on strings.\<close>

definition includes_arr :: "string list \<Rightarrow> string \<Rightarrow> bool" where
  "includes_arr xs x = (x \<in> set xs)"

text \<open>\<open>Array.prototype.join\<close>.\<close>

fun join :: "string list \<Rightarrow> string \<Rightarrow> string" where
  "join [] sep = []"
| "join [x] sep = x"
| "join (x # y # ys) sep = x @ sep @ join (y # ys) sep"

text \<open>\<open>window.alert(msg)\<close>: the dialogs shown so far, oldest first.\<close>

definition alert :: "string \<Rightarrow> string list \<Rightarrow> string list" where
  "alert msg shown = shown @ [msg]"

text \<open>\<open>input.value = ''\<close> on a file input empties its list of selected files.\<close>

definition set_value_empty :: "'a file_input_scheme \<Rightarrow> 'a file_input_scheme" where
  "set_value_empty input = input\<lparr>files := []\<rparr>"

subsection \<open>\<open>validateFileInput\<close> (lines 32-50)\<close>

text \<open>
  \<open>fileName.split('.').pop().toLowerCase()\<close>: calling \<open>toLowerCase\<close> on \<open>undefined\<close> would
  throw.
\<close>

definition fileExtension :: "string \<Rightarrow> error + string" where
  "fileExtension fileName =
     (case pop (split fileName (CHR ''.'')) of
        None \<Rightarrow> Inl TypeError
      | Some s \<Rightarrow> Inr (toLowerCase s))"

definition maxSize :: nat where
  "maxSize = 16 * 1024 * 1024"

definition type_message :: "string list \<Rightarrow> string" where
  "type_message allowedExtensions =
     ''Invalid file type. Allowed types: '' @ join allowedExtensions '', ''"

definition size_message :: string where
  "size_message = ''File size exceeds the maximum limit of 16MB.''"

text \<open>
  The function takes the control and the dialogs shown so far and returns both. \<open>file\<close> is
  bound before either check, so the size check reads the same file after the type check
  has emptied the control.
\<close>

definition validateFileInput ::
  "'a file_input_scheme \<Rightarrow> string list \<Rightarrow> string list
     \<Rightarrow> error + ('a file_input_scheme \<times> string list)" where
  "validateFileInput input allowedExtensions shown =
     (case files input of
        [] \<Rightarrow> Inr (input, shown)
      | file # _ \<Rightarrow>
          (case fileExtension (name file) of
             Inl e \<Rightarrow> Inl e
           | Inr ext \<Rightarrow>
               let (input1, shown1) =
                     (if \<not> includes_arr allowedExtensions ext
                      then (set_value_empty input, alert (type_message allowedExtensions) shown)
                      else (input, shown));
                   (input2, shown2) =
                     (if size_bytes file > maxSize
                      then (set_value_empty input1, alert size_message shown1)
                      else (input1, shown1))
               in Inr (input2, shown2)))"

subsection \<open>The \<open>DOMContentLoaded\<close> handler (lines 2-29)\<close>

text \<open>\<open>document.getElementById\<close>: the first element with the id, or \<open>null\<close>.\<close>

definition getElementById :: "'a document_scheme \<Rightarrow> string \<Rightarrow> file_input option" where
  "getElementById doc i = map_of (elements doc) i"

text \<open>
  \<open>el.addEventListener('change', l)\<close> through a reference that may be \<open>null\<close>; the element
  found under the id is replaced by the one with the listener appended.
\<close>

definition addEventListener ::
  "string \<Rightarrow> file_input option \<Rightarrow> listener \<Rightarrow> 'a document_scheme \<Rightarrow> error + 'a document_scheme" where
  "addEventListener i el l doc =
     (case el of
        None \<Rightarrow> Inl TypeError
      | Some e \<Rightarrow>
          Inr (doc\<lparr>elements := AList.update i (e\<lparr>listeners := listeners e @ [l]\<rparr>) (elements doc)\<rparr>))"

definition setTimeout :: "callback \<Rightarrow> nat \<Rightarrow> 'a document_scheme \<Rightarrow> 'a document_scheme" where
  "setTimeout cb ms doc = doc\<lparr>timers := timers doc @ [\<lparr>callback = cb, delay = ms\<rparr>]\<rparr>"

text \<open>\<open>alerts.forEach(function(alert) { setTimeout(..., 5000); })\<close> over the node list.\<close>

definition schedule_auto_close :: "'a document_scheme \<Rightarrow> 'a document_scheme" where
  "schedule_auto_close doc =
     fold (\<lambda>i d. setTimeout (AutoClose i) 5000 d) [0 ..< length (alert_elements doc)] doc"

definition DOMContentLoaded :: "'a document_scheme \<Rightarrow> error + 'a document_scheme" where
  "DOMContentLoaded doc =
     (let answerSheetInput = getElementById doc ''answer_sheet'';
          answerKeyInput = getElementById doc ''answer_key''
      in case (if answerSheetInput \<noteq> None
               then addEventListener ''answer_sheet'' answerSheetInput
                      (ValidateFileInput [''jpg'', ''jpeg'', ''png'', ''pdf'']) doc
               else Inr doc) of
           Inl e \<Rightarrow> Inl e
         | Inr doc1 \<Rightarrow>
             (case (if answerKeyInput \<noteq> None
                    then addEventListener ''answer_key'' answerKeyInput
                           (ValidateFileInput [''jpg'', ''jpeg'', ''png'', ''pdf'', ''txt'']) doc1
                    else Inr doc1) of
                Inl e \<Rightarrow> Inl e
              | Inr doc2 \<Rightarrow> Inr (schedule_auto_close doc2)))"

subsection \<open>Running a registered listener and a timer callback\<close>

text \<open>A \<open>change\<close> listener runs with \<open>this\<close> bound to the control.\<close>

fun run_listener ::
  "listener \<Rightarrow> 'a file_input_scheme \<Rightarrow> string list
     \<Rightarrow> error + ('a file_input_scheme \<times> string list)" where
  "run_listener (ValidateFileInput allowedExtensions) this shown =
     validateFileInput this allowedExtensions shown"

text \<open>\<open>closeButton.click()\<close> through a reference that may be \<open>null\<close>.\<close>

definition click :: "close_button option \<Rightarrow> error + close_button" where
  "click b = (case b of None \<Rightarrow> Inl TypeError | Some c \<Rightarrow> Inr (c\<lparr>clicks := clicks c + 1\<rparr>))"

text \<open>The body of the timer callback (lines 23-26) on its captured element.\<close>

definition auto_close :: "banner \<Rightarrow> error + banner" where
  "auto_close alert_el =
     (let closeButton = btn_close alert_el
      in if closeButton \<noteq> None
         then (case click closeButton of
                 Inl e \<Rightarrow> Inl e
               | Inr c \<Rightarrow> Inr (alert_el\<lparr>btn_close := Some c\<rparr>))
         else Inr alert_el)"

text \<open>
  Firing a timer runs its callback on the captured element. Elements are never removed
  from \<open>alert_elements\<close>, so a captured position stays in range; outside it there is
  nothing to run.
\<close>

fun run_callback :: "callback \<Rightarrow> 'a document_scheme \<Rightarrow> error + 'a document_scheme" where
  "run_callback (AutoClose i) doc =
     (if i < length (alert_elements doc)
      then (case auto_close (alert_elements doc ! i) of
              Inl e \<Rightarrow> Inl e
            | Inr b \<Rightarrow> Inr (doc\<lparr>alert_elements := (alert_elements doc)[i := b]\<rparr>))
      else Inr doc)"

subsection \<open>Vocabulary of the specification\<close>

text \<open>
  A file the specification calls valid for a control: its derived suffix is in the
  control's allowed set and its size does not exceed 16,777,216 bytes.
\<close>

definition acceptable :: "string list \<Rightarrow> file_obj \<Rightarrow> bool" where
  "acceptable allowedExtensions f =
     ((case fileExtension (name f) of Inl e \<Rightarrow> False | Inr ext \<Rightarrow> ext \<in> set allowedExtensions)
      \<and> size_bytes f \<le> 16777216)"

section \<open>Properties\<close>

subsection \<open>Facts about the built-ins\<close>

lemma split_acc_not_Nil: "split_acc sep cur s \<noteq> []"
  by (induction s arbitrary: cur) auto

lemma split_acc_no_sep: "sep \<notin> set s \<Longrightarrow> split_acc sep cur s = [cur @ s]"
  by (induction s arbitrary: cur) auto

lemma split_acc_last:
  "sep \<notin> set suf \<Longrightarrow> last (split_acc sep cur (pre @ sep # suf)) = suf"
proof (induction pre arbitrary: cur)
  case Nil
  then show ?case by (simp add: split_acc_no_sep)
next
  case (Cons c pre)
  then show ?case by (simp add: split_acc_not_Nil)
qed

lemma pop_last: "xs \<noteq> [] \<Longrightarrow> pop xs = Some (last xs)"
  by (cases xs) simp_all

lemma fileExtension_last:
  "fileExtension fileName = Inr (toLowerCase (last (split fileName (CHR ''.''))))"
  by (simp add: fileExtension_def split_def pop_last split_acc_not_Nil)

lemma join_mentions: "e \<in> set xs \<Longrightarrow> \<exists>p s. join xs sep = p @ e @ s"
proof (induction xs sep rule: join.induct)
  case (1 sep)
  then show ?case by simp
next
  case (2 x sep)
  then have "join [x] sep = [] @ e @ []" by simp
  then show ?case by blast
next
  case (3 x y ys sep)
  show ?case
  proof (cases "e = x")
    case True
    then have "join (x # y # ys) sep = [] @ e @ (sep @ join (y # ys) sep)" by simp
    then show ?thesis by blast
  next
    case False
    with 3 obtain p s where "join (y # ys) sep = p @ e @ s" by auto
    then have "join (x # y # ys) sep = (x @ sep @ p) @ e @ s" by simp
    then show ?thesis by blast
  qed
qed

lemma type_message_mentions:
  "e \<in> set allowedExtensions \<Longrightarrow> \<exists>p s. type_message allowedExtensions = p @ e @ s"
proof -
  assume "e \<in> set allowedExtensions"
  then obtain p s where "join allowedExtensions '', '' = p @ e @ s"
    using join_mentions by blast
  then have "type_message allowedExtensions = (''Invalid file type. Allowed types: '' @ p) @ e @ s"
    by (simp add: type_message_def)
  then show ?thesis by blast
qed

lemma size_message_neq_type_message: "size_message \<noteq> type_message allowedExtensions"
  by (simp add: size_message_def type_message_def)

lemma maxSize_eq: "maxSize = 16777216"
  by (simp add: maxSize_def)

subsection \<open>What \<open>validateFileInput\<close> computes\<close>

lemma validateFileInput_Nil:
  "files input = [] \<Longrightarrow> validateFileInput input allowedExtensions shown = Inr (input, shown)"
  by (simp add: validateFileInput_def)

lemma validateFileInput_Cons:
  assumes "files input = f # rest" and "fileExtension (name f) = Inr ext"
  shows "validateFileInput input allowedExtensions shown =
           Inr (if ext \<in> set allowedExtensions \<and> size_bytes f \<le> 16777216
                then input else input\<lparr>files := []\<rparr>,
                shown @ (if ext \<in> set allowedExtensions then [] else [type_message allowedExtensions])
                      @ (if size_bytes f \<le> 16777216 then [] else [size_message]))"
  using assms
  by (simp add: validateFileInput_def includes_arr_def set_value_empty_def alert_def maxSize_eq)

subsection \<open>What the \<open>DOMContentLoaded\<close> handler and a timer callback compute\<close>

lemma fold_setTimeout:
  "fold (\<lambda>i d. setTimeout (AutoClose i) ms d) js doc =
     doc\<lparr>timers := timers doc @ map (\<lambda>j. \<lparr>callback = AutoClose j, delay = ms\<rparr>) js\<rparr>"
  by (induction js arbitrary: doc) (simp_all add: setTimeout_def)

lemma schedule_auto_close_eq:
  "schedule_auto_close doc =
     doc\<lparr>timers := timers doc @ map (\<lambda>j. \<lparr>callback = AutoClose j, delay = 5000\<rparr>)
                                      [0 ..< length (alert_elements doc)]\<rparr>"
  by (simp add: schedule_auto_close_def fold_setTimeout)

lemma DOMContentLoaded_eq:
  "DOMContentLoaded doc =
     Inr (doc\<lparr>elements :=
               (case map_of (elements doc) ''answer_key'' of
                  None \<Rightarrow> id
                | Some k \<Rightarrow> AList.update ''answer_key''
                    (k\<lparr>listeners := listeners k @
                        [ValidateFileInput [''jpg'', ''jpeg'', ''png'', ''pdf'', ''txt'']]\<rparr>))
               ((case map_of (elements doc) ''answer_sheet'' of
                   None \<Rightarrow> id
                 | Some s \<Rightarrow> AList.update ''answer_sheet''
                     (s\<lparr>listeners := listeners s @
                         [ValidateFileInput [''jpg'', ''jpeg'', ''png'', ''pdf'']]\<rparr>))
                (elements doc)),
             timers := timers doc @ map (\<lambda>j. \<lparr>callback = AutoClose j, delay = 5000\<rparr>)
                                      [0 ..< length (alert_elements doc)]\<rparr>)"
proof (cases "map_of (elements doc) ''answer_sheet''")
  case None
  then show ?thesis
    by (cases "map_of (elements doc) ''answer_key''")
       (simp_all add: DOMContentLoaded_def getElementById_def addEventListener_def
          schedule_auto_close_eq)
next
  case (Some a)
  then show ?thesis
    by (cases "map_of (elements doc) ''answer_key''")
       (simp_all add: DOMContentLoaded_def getElementById_def addEventListener_def
          schedule_auto_close_eq)
qed

lemma auto_close_no_button: "btn_close b = None \<Longrightarrow> auto_close b = Inr b"
  by (simp add: auto_close_def)

lemma run_callback_no_button:
  "i < length (alert_elements d) \<Longrightarrow> btn_close (alert_elements d ! i) = None
     \<Longrightarrow> run_callback (AutoClose i) d = Inr d"
  by (simp add: auto_close_no_button)

subsection \<open>Concrete suffixes used in the examples\<close>

lemma ext_scan_png: "fileExtension ''scan.png'' = Inr ''png''"
  by code_simp

lemma lower_readme: "toLowerCase ''README'' = ''readme''"
  by code_simp

lemma lower_png: "toLowerCase ''PNG'' = ''png''"
  by code_simp

lemma ext_scan_docx: "fileExtension ''scan.docx'' = Inr ''docx''"
  by code_simp

lemma ext_key_txt: "fileExtension ''key.txt'' = Inr ''txt''"
  by code_simp

lemma ext_notes_exe: "fileExtension ''notes.TXT.exe'' = Inr ''exe''"
  by code_simp

lemma ext_report_docx: "fileExtension ''report.docx'' = Inr ''docx''"
  by code_simp

lemma ext_setup_exe: "fileExtension ''setup.exe'' = Inr ''exe''"
  by code_simp

subsection \<open>Claims about \<open>validateFileInput\<close>\<close>

text \<open>
  C8. When the control has no file selected (\<open>input.files[0]\<close> is \<open>undefined\<close>), the
  operation returns at once: the control is returned as it was, no dialog is added to the
  ones already shown, and nothing is thrown.
\<close>

theorem no_file_selected_does_nothing:
  assumes "files input = []"
  shows "validateFileInput input allowedExtensions shown = Inr (input, shown)"
  using assms by (rule validateFileInput_Nil)

theorem no_file_selected_does_nothing_witness:
  "validateFileInput \<lparr>files = [], listeners = [ValidateFileInput [''jpg'', ''jpeg'', ''png'', ''pdf'']]\<rparr>
     [''jpg'', ''jpeg'', ''png'', ''pdf''] [''earlier dialog'']
   = Inr (\<lparr>files = [], listeners = [ValidateFileInput [''jpg'', ''jpeg'', ''png'', ''pdf'']]\<rparr>,
          [''earlier dialog''])"
  using no_file_selected_does_nothing
    [of "\<lparr>files = [], listeners = [ValidateFileInput [''jpg'', ''jpeg'', ''png'', ''pdf'']]\<rparr>"
        "[''jpg'', ''jpeg'', ''png'', ''pdf'']" "[''earlier dialog'']"]
  by simp

text \<open>
  C2. When the first selected file has a derived lowercased suffix in the allowed array
  and a size of at most 16,777,216 bytes, the operation returns the control unchanged
  (selection included) and adds no dialog. The witness is the scenario of the
  specification: \<open>scan.png\<close>, 2 MB, on the answer-sheet array.
\<close>

theorem valid_file_is_kept_silently:
  assumes "files input = f # rest"
    and "fileExtension (name f) = Inr ext"
    and "ext \<in> set allowedExtensions"
    and "size_bytes f \<le> 16777216"
  shows "validateFileInput input allowedExtensions shown = Inr (input, shown)"
  using assms by (simp add: validateFileInput_Cons)

theorem valid_file_is_kept_silently_witness:
  "validateFileInput
     \<lparr>files = [\<lparr>name = ''scan.png'', size_bytes = 2097152\<rparr>], listeners = []\<rparr>
     [''jpg'', ''jpeg'', ''png'', ''pdf''] []
   = Inr (\<lparr>files = [\<lparr>name = ''scan.png'', size_bytes = 2097152\<rparr>], listeners = []\<rparr>, [])"
  using valid_file_is_kept_silently
    [of "\<lparr>files = [\<lparr>name = ''scan.png'', size_bytes = 2097152\<rparr>], listeners = []\<rparr>"
        "\<lparr>name = ''scan.png'', size_bytes = 2097152\<rparr>" "[]" "''png''"
        "[''jpg'', ''jpeg'', ''png'', ''pdf'']" "[]"]
    ext_scan_png
  by simp

text \<open>
  C1, as stated, fails. On the answer-sheet array a selection of \<open>scan.png\<close> (2 MB)
  followed by \<open>setup.exe\<close> (64 MB) is returned unchanged, because only
  \<open>input.files[0]\<close> is examined (line 33): the control retains \<open>setup.exe\<close>, which
  violates both constraints.
\<close>

theorem retains_invalid_later_file_counterexample:
  "validateFileInput
     \<lparr>files = [\<lparr>name = ''scan.png'', size_bytes = 2097152\<rparr>,
               \<lparr>name = ''setup.exe'', size_bytes = 67108864\<rparr>], listeners = []\<rparr>
     [''jpg'', ''jpeg'', ''png'', ''pdf''] []
   = Inr (\<lparr>files = [\<lparr>name = ''scan.png'', size_bytes = 2097152\<rparr>,
                     \<lparr>name = ''setup.exe'', size_bytes = 67108864\<rparr>], listeners = []\<rparr>, [])
   \<and> \<not> acceptable [''jpg'', ''jpeg'', ''png'', ''pdf'']
         \<lparr>name = ''setup.exe'', size_bytes = 67108864\<rparr>"
  by (simp add: validateFileInput_Cons [where f = "\<lparr>name = ''scan.png'', size_bytes = 2097152\<rparr>"
        and rest = "[\<lparr>name = ''setup.exe'', size_bytes = 67108864\<rparr>]" and ext = "''png''"]
      ext_scan_png ext_setup_exe acceptable_def)

text \<open>
  C1, amended. On a control with a selected first file \<open>f\<close> the operation always returns,
  and afterwards the control either has no selection, or is exactly the control as it was
  and \<open>f\<close> has a suffix in the allowed array and a size of at most 16,777,216 bytes.
  When \<open>f\<close> is the whole selection, every file the control still holds satisfies both
  constraints; files after the first are not examined.
\<close>

theorem selection_after_validation:
  assumes "files input = f # rest"
  shows "\<exists>input' shown'.
           validateFileInput input allowedExtensions shown = Inr (input', shown')
           \<and> (files input' = [] \<or> (input' = input \<and> acceptable allowedExtensions f))
           \<and> (rest = [] \<longrightarrow> (\<forall>g \<in> set (files input'). acceptable allowedExtensions g))"
proof -
  obtain ext where ext: "fileExtension (name f) = Inr ext"
    by (simp add: fileExtension_last)
  show ?thesis
  proof (cases "ext \<in> set allowedExtensions \<and> size_bytes f \<le> 16777216")
    case True
    with assms ext have "validateFileInput input allowedExtensions shown = Inr (input, shown)"
      by (simp add: validateFileInput_Cons)
    moreover from True ext have "acceptable allowedExtensions f"
      by (simp add: acceptable_def)
    ultimately show ?thesis using assms by auto
  next
    case False
    with assms ext have "\<exists>shown'. validateFileInput input allowedExtensions shown
                           = Inr (input\<lparr>files := []\<rparr>, shown')"
      by (simp add: validateFileInput_Cons)
    then show ?thesis by auto
  qed
qed

theorem selection_after_validation_witness:
  "\<exists>input' shown'.
     validateFileInput
       \<lparr>files = [\<lparr>name = ''scan.png'', size_bytes = 2097152\<rparr>], listeners = []\<rparr>
       [''jpg'', ''jpeg'', ''png'', ''pdf''] [] = Inr (input', shown')
     \<and> (files input' = []
        \<or> (input' = \<lparr>files = [\<lparr>name = ''scan.png'', size_bytes = 2097152\<rparr>], listeners = []\<rparr>
           \<and> acceptable [''jpg'', ''jpeg'', ''png'', ''pdf'']
                \<lparr>name = ''scan.png'', size_bytes = 2097152\<rparr>))
     \<and> (\<forall>g \<in> set (files input'). acceptable [''jpg'', ''jpeg'', ''png'', ''pdf''] g)"
  using selection_after_validation
    [of "\<lparr>files = [\<lparr>name = ''scan.png'', size_bytes = 2097152\<rparr>], listeners = []\<rparr>"
        "\<lparr>name = ''scan.png'', size_bytes = 2097152\<rparr>" "[]"
        "[''jpg'', ''jpeg'', ''png'', ''pdf'']" "[]"]
  by simp

text \<open>
  C3, as stated, fails. \<open>scan.docx\<close> of 20 MB on the answer-sheet array has a suffix
  outside the allowed array, and the operation shows two dialogs, not exactly one: the
  size check on line 46 runs whatever the type check did.
\<close>

theorem exactly_one_alert_counterexample:
  "fileExtension (name \<lparr>name = ''scan.docx'', size_bytes = 20971520\<rparr>) = Inr ''docx''
   \<and> ''docx'' \<notin> set [''jpg'', ''jpeg'', ''png'', ''pdf'']
   \<and> validateFileInput
        \<lparr>files = [\<lparr>name = ''scan.docx'', size_bytes = 20971520\<rparr>], listeners = []\<rparr>
        [''jpg'', ''jpeg'', ''png'', ''pdf''] []
      = Inr (\<lparr>files = [], listeners = []\<rparr>,
             [''Invalid file type. Allowed types: jpg, jpeg, png, pdf'',
              ''File size exceeds the maximum limit of 16MB.''])"
  by (simp add: validateFileInput_Cons [where f = "\<lparr>name = ''scan.docx'', size_bytes = 20971520\<rparr>"
        and rest = "[]" and ext = "''docx''"] ext_scan_docx type_message_def size_message_def)

text \<open>
  C3, amended. When the first selected file has a derived lowercased suffix outside the
  allowed array, the operation empties the selection and shows exactly one type dialog,
  whose text is the fixed prefix followed by the allowed array joined with \<open>", "\<close>, so
  every allowed suffix occurs in it. It is the only dialog when the size is at most
  16,777,216 bytes; otherwise the size dialog, a different text, follows it.
\<close>

theorem wrong_type_clears_with_type_alert:
  assumes "files input = f # rest"
    and "fileExtension (name f) = Inr ext"
    and "ext \<notin> set allowedExtensions"
  shows "validateFileInput input allowedExtensions shown =
           Inr (input\<lparr>files := []\<rparr>,
                shown @ type_message allowedExtensions
                        # (if size_bytes f \<le> 16777216 then [] else [size_message]))
         \<and> type_message allowedExtensions =
             ''Invalid file type. Allowed types: '' @ join allowedExtensions '', ''
         \<and> (\<forall>e \<in> set allowedExtensions. \<exists>p s. type_message allowedExtensions = p @ e @ s)
         \<and> size_message \<noteq> type_message allowedExtensions"
proof -
  from assms have "validateFileInput input allowedExtensions shown =
           Inr (input\<lparr>files := []\<rparr>,
                shown @ type_message allowedExtensions
                        # (if size_bytes f \<le> 16777216 then [] else [size_message]))"
    by (simp add: validateFileInput_Cons)
  moreover have "\<forall>e \<in> set allowedExtensions. \<exists>p s. type_message allowedExtensions = p @ e @ s"
    using type_message_mentions by blast
  ultimately show ?thesis
    by (simp add: type_message_def size_message_def)
qed

theorem wrong_type_clears_with_type_alert_witness:
  "validateFileInput
     \<lparr>files = [\<lparr>name = ''report.docx'', size_bytes = 2097152\<rparr>], listeners = []\<rparr>
     [''jpg'', ''jpeg'', ''png'', ''pdf''] []
   = Inr (\<lparr>files = [], listeners = []\<rparr>,
          [''Invalid file type. Allowed types: jpg, jpeg, png, pdf''])"
  using wrong_type_clears_with_type_alert
    [of "\<lparr>files = [\<lparr>name = ''report.docx'', size_bytes = 2097152\<rparr>], listeners = []\<rparr>"
        "\<lparr>name = ''report.docx'', size_bytes = 2097152\<rparr>" "[]" "''docx''"
        "[''jpg'', ''jpeg'', ''png'', ''pdf'']" "[]"]
    ext_report_docx
  by (simp add: type_message_def)

text \<open>
  C4. When the first selected file is larger than 16,777,216 bytes, the operation
  empties the selection and shows the size dialog last, exactly once, for every allowed
  array: after no other dialog when the suffix is allowed, after the type dialog when
  it is not. The size check is therefore not conditional on the type check.
\<close>

theorem oversized_clears_with_size_alert:
  assumes "files input = f # rest"
    and "16777216 < size_bytes f"
  shows "\<exists>ext. fileExtension (name f) = Inr ext
           \<and> validateFileInput input allowedExtensions shown =
               Inr (input\<lparr>files := []\<rparr>,
                    shown @ (if ext \<in> set allowedExtensions then []
                             else [type_message allowedExtensions]) @ [size_message])
           \<and> size_message \<noteq> type_message allowedExtensions"
proof -
  obtain ext where ext: "fileExtension (name f) = Inr ext"
    by (simp add: fileExtension_last)
  with assms have "validateFileInput input allowedExtensions shown =
               Inr (input\<lparr>files := []\<rparr>,
                    shown @ (if ext \<in> set allowedExtensions then []
                             else [type_message allowedExtensions]) @ [size_message])"
    by (simp add: validateFileInput_Cons)
  with ext show ?thesis
    by (simp add: size_message_neq_type_message)
qed

theorem oversized_clears_with_size_alert_witness:
  "validateFileInput
     \<lparr>files = [\<lparr>name = ''key.txt'', size_bytes = 20971520\<rparr>], listeners = []\<rparr>
     [''jpg'', ''jpeg'', ''png'', ''pdf'', ''txt''] []
   = Inr (\<lparr>files = [], listeners = []\<rparr>, [''File size exceeds the maximum limit of 16MB.''])"
  using oversized_clears_with_size_alert
    [of "\<lparr>files = [\<lparr>name = ''key.txt'', size_bytes = 20971520\<rparr>], listeners = []\<rparr>"
        "\<lparr>name = ''key.txt'', size_bytes = 20971520\<rparr>" "[]"
        "[''jpg'', ''jpeg'', ''png'', ''pdf'', ''txt'']" "[]"]
    ext_key_txt
  by (simp add: size_message_def)

text \<open>
  C5. When the first selected file has a suffix outside the allowed array and is larger
  than 16,777,216 bytes, the operation shows the type dialog and then the size dialog,
  these two and no other, and the selection ends empty.
\<close>

theorem wrong_type_and_oversized_two_alerts:
  assumes "files input = f # rest"
    and "fileExtension (name f) = Inr ext"
    and "ext \<notin> set allowedExtensions"
    and "16777216 < size_bytes f"
  shows "validateFileInput input allowedExtensions shown =
           Inr (input\<lparr>files := []\<rparr>, shown @ [type_message allowedExtensions, size_message])"
  using assms by (simp add: validateFileInput_Cons)

theorem wrong_type_and_oversized_two_alerts_witness:
  "validateFileInput
     \<lparr>files = [\<lparr>name = ''notes.TXT.exe'', size_bytes = 33554432\<rparr>], listeners = []\<rparr>
     [''jpg'', ''jpeg'', ''png'', ''pdf''] []
   = Inr (\<lparr>files = [], listeners = []\<rparr>,
          [''Invalid file type. Allowed types: jpg, jpeg, png, pdf'',
           ''File size exceeds the maximum limit of 16MB.''])"
  using wrong_type_and_oversized_two_alerts
    [of "\<lparr>files = [\<lparr>name = ''notes.TXT.exe'', size_bytes = 33554432\<rparr>], listeners = []\<rparr>"
        "\<lparr>name = ''notes.TXT.exe'', size_bytes = 33554432\<rparr>" "[]" "''exe''"
        "[''jpg'', ''jpeg'', ''png'', ''pdf'']" "[]"]
    ext_notes_exe
  by (simp add: type_message_def size_message_def)

text \<open>
  C6. The suffix the operation uses, \<open>fileName.split('.').pop().toLowerCase()\<close>, is
  always defined. For a name without \<open>"."\<close> it is the whole name lowercased; for a name
  \<open>pre.suf\<close> where \<open>suf\<close> has no \<open>"."\<close> (so the dot shown is the last one) it is \<open>suf\<close>
  lowercased.
\<close>

theorem suffix_is_after_last_dot:
  "(CHR ''.'' \<notin> set fileName \<longrightarrow> fileExtension fileName = Inr (toLowerCase fileName))
   \<and> (\<forall>pre suf. fileName = pre @ ''.'' @ suf \<and> CHR ''.'' \<notin> set suf
         \<longrightarrow> fileExtension fileName = Inr (toLowerCase suf))"
  by (simp add: fileExtension_last split_def split_acc_no_sep split_acc_last)

theorem suffix_is_after_last_dot_witness:
  "fileExtension ''README'' = Inr ''readme'' \<and> fileExtension ''Scan.Final.PNG'' = Inr ''png''"
  using suffix_is_after_last_dot [of "''README''", THEN conjunct1]
    suffix_is_after_last_dot [of "''Scan.Final.PNG''", THEN conjunct2, rule_format,
      of "''Scan.Final''" "''PNG''"]
  by (simp add: lower_readme lower_png)

text \<open>
  C10. Only \<open>input.files[0]\<close> is read. For a selection \<open>f # rest\<close>, whether the selection
  is emptied and which dialogs are added are fixed by \<open>f\<close>, the allowed array and the
  control, the same for every \<open>rest\<close>. In particular, when \<open>f\<close> is valid the whole
  selection is kept, whatever the later files are; the witness keeps a 64 MB \<open>setup.exe\<close>
  behind a valid \<open>scan.png\<close>.
\<close>

theorem only_first_file_is_inspected:
  "(\<exists>cleared new_alerts. \<forall>rest.
      validateFileInput (input\<lparr>files := f # rest\<rparr>) allowedExtensions shown =
        Inr (input\<lparr>files := if cleared then [] else f # rest\<rparr>, shown @ new_alerts))
   \<and> (acceptable allowedExtensions f \<longrightarrow>
        (\<forall>rest. validateFileInput (input\<lparr>files := f # rest\<rparr>) allowedExtensions shown =
                  Inr (input\<lparr>files := f # rest\<rparr>, shown)))"
proof -
  obtain ext where ext: "fileExtension (name f) = Inr ext"
    by (simp add: fileExtension_last)
  let ?ok = "ext \<in> set allowedExtensions \<and> size_bytes f \<le> 16777216"
  let ?new = "(if ext \<in> set allowedExtensions then [] else [type_message allowedExtensions])
              @ (if size_bytes f \<le> 16777216 then [] else [size_message])"
  have "\<forall>rest. validateFileInput (input\<lparr>files := f # rest\<rparr>) allowedExtensions shown =
          Inr (input\<lparr>files := if \<not> ?ok then [] else f # rest\<rparr>, shown @ ?new)"
    using ext by (simp add: validateFileInput_Cons [where f = f and ext = ext])
  then have first: "\<exists>cleared new_alerts. \<forall>rest.
      validateFileInput (input\<lparr>files := f # rest\<rparr>) allowedExtensions shown =
        Inr (input\<lparr>files := if cleared then [] else f # rest\<rparr>, shown @ new_alerts)"
    by blast
  have "\<forall>rest. validateFileInput (input\<lparr>files := f # rest\<rparr>) allowedExtensions shown =
                  Inr (input\<lparr>files := f # rest\<rparr>, shown)"
    if "acceptable allowedExtensions f"
    using that ext by (simp add: acceptable_def validateFileInput_Cons [where f = f and ext = ext])
  with first show ?thesis by blast
qed

theorem only_first_file_is_inspected_witness:
  "validateFileInput
     \<lparr>files = [\<lparr>name = ''scan.png'', size_bytes = 2097152\<rparr>,
               \<lparr>name = ''setup.exe'', size_bytes = 67108864\<rparr>], listeners = []\<rparr>
     [''jpg'', ''jpeg'', ''png'', ''pdf''] []
   = Inr (\<lparr>files = [\<lparr>name = ''scan.png'', size_bytes = 2097152\<rparr>,
                     \<lparr>name = ''setup.exe'', size_bytes = 67108864\<rparr>], listeners = []\<rparr>, [])"
  using only_first_file_is_inspected
    [where input = "\<lparr>files = [], listeners = []\<rparr>"
       and f = "\<lparr>name = ''scan.png'', size_bytes = 2097152\<rparr>"
       and allowedExtensions = "[''jpg'', ''jpeg'', ''png'', ''pdf'']"
       and shown = "[]", THEN conjunct2, rule_format,
     of "[\<lparr>name = ''setup.exe'', size_bytes = 67108864\<rparr>]"]
  by (simp add: acceptable_def ext_scan_png)

subsection \<open>Claims about the \<open>DOMContentLoaded\<close> handler\<close>

text \<open>
  C7. Initialization always returns without error. Afterwards the element found under
  \<open>answer_sheet\<close>, if there was one, is that element with one more \<open>change\<close> listener,
  the one that validates against \<open>jpg, jpeg, png, pdf\<close>; the element found under
  \<open>answer_key\<close>, if there was one, has gained the listener for \<open>jpg, jpeg, png, pdf, txt\<close>.
  An id under which nothing was found still has nothing, every other id finds what it
  found before, and with both controls absent the elements are untouched.
\<close>

theorem init_registers_both_controls:
  "\<exists>doc'. DOMContentLoaded doc = Inr doc'
     \<and> getElementById doc' ''answer_sheet'' =
         map_option (\<lambda>e. e\<lparr>listeners := listeners e @
                      [ValidateFileInput [''jpg'', ''jpeg'', ''png'', ''pdf'']]\<rparr>)
           (getElementById doc ''answer_sheet'')
     \<and> getElementById doc' ''answer_key'' =
         map_option (\<lambda>e. e\<lparr>listeners := listeners e @
                      [ValidateFileInput [''jpg'', ''jpeg'', ''png'', ''pdf'', ''txt'']]\<rparr>)
           (getElementById doc ''answer_key'')
     \<and> (\<forall>i. i \<noteq> ''answer_sheet'' \<and> i \<noteq> ''answer_key''
            \<longrightarrow> getElementById doc' i = getElementById doc i)
     \<and> (getElementById doc ''answer_sheet'' = None \<and> getElementById doc ''answer_key'' = None
            \<longrightarrow> elements doc' = elements doc)"
  by (simp add: DOMContentLoaded_eq getElementById_def update_conv' split: option.splits)

theorem init_registers_both_controls_witness:
  "\<exists>doc'. DOMContentLoaded
     \<lparr>elements = [(''answer_key'', \<lparr>files = [], listeners = []\<rparr>)],
      alert_elements = [], timers = []\<rparr> = Inr doc'
    \<and> getElementById doc' ''answer_sheet'' = None
    \<and> getElementById doc' ''answer_key'' =
         Some \<lparr>files = [], listeners =
                 [ValidateFileInput [''jpg'', ''jpeg'', ''png'', ''pdf'', ''txt'']]\<rparr>"
  using init_registers_both_controls
    [of "\<lparr>elements = [(''answer_key'', \<lparr>files = [], listeners = []\<rparr>)],
          alert_elements = [], timers = []\<rparr>"]
  by (auto simp add: getElementById_def)

text \<open>
  C9. Let banner \<open>i\<close> be present at load time without a \<open>.btn-close\<close> descendant.
  Initialization returns, adds one timer of 5000 ms per banner in document order (so one
  for \<open>i\<close>) and leaves the banners as they are; running the callback of the timer for \<open>i\<close>
  on the resulting page returns that page unchanged, without error. The same holds on
  any later page in which banner \<open>i\<close> still has no \<open>.btn-close\<close>.
\<close>

theorem banner_without_close_button_untouched:
  assumes "i < length (alert_elements doc)"
    and "btn_close (alert_elements doc ! i) = None"
  shows "\<exists>doc'. DOMContentLoaded doc = Inr doc'
           \<and> timers doc' = timers doc @ map (\<lambda>j. \<lparr>callback = AutoClose j, delay = 5000\<rparr>)
                                             [0 ..< length (alert_elements doc)]
           \<and> alert_elements doc' = alert_elements doc
           \<and> run_callback (AutoClose i) doc' = Inr doc'
           \<and> (\<forall>d :: 'a document_scheme.
                 i < length (alert_elements d) \<and> btn_close (alert_elements d ! i) = None
                 \<longrightarrow> run_callback (AutoClose i) d = Inr d)"
proof -
  have "\<forall>d :: 'a document_scheme.
          i < length (alert_elements d) \<and> btn_close (alert_elements d ! i) = None
          \<longrightarrow> run_callback (AutoClose i) d = Inr d"
    using run_callback_no_button by blast
  with assms show ?thesis
    by (simp add: DOMContentLoaded_eq auto_close_no_button)
qed

theorem banner_without_close_button_untouched_witness:
  "\<exists>doc'. DOMContentLoaded
      \<lparr>elements = [], alert_elements = [\<lparr>btn_close = Some \<lparr>clicks = 0\<rparr>\<rparr>, \<lparr>btn_close = None\<rparr>],
       timers = []\<rparr> = Inr doc'
     \<and> timers doc' = [\<lparr>callback = AutoClose 0, delay = 5000\<rparr>, \<lparr>callback = AutoClose 1, delay = 5000\<rparr>]
     \<and> alert_elements doc' = [\<lparr>btn_close = Some \<lparr>clicks = 0\<rparr>\<rparr>, \<lparr>btn_close = None\<rparr>]
     \<and> run_callback (AutoClose 1) doc' = Inr doc'"
  using banner_without_close_button_untouched
    [of 1 "\<lparr>elements = [], alert_elements = [\<lparr>btn_close = Some \<lparr>clicks = 0\<rparr>\<rparr>, \<lparr>btn_close = None\<rparr>],
             timers = []\<rparr>"]
  by (auto simp add: upt_rec simp del: run_callback.simps)

end
